theory Spec2Isabelle
  imports Main "HOL-Library.Char_ord" "HOL-Library.List_Lexorder" "HOL-Library.AList"
begin

section \<open>Strings\<close>

text \<open>
  A Python \<open>str\<close> is modelled as a \<open>string\<close>. Symbols and file names are ASCII
  text; on ASCII the functions below are Python's \<open>str.upper\<close>, \<open>str.lower\<close>,
  \<open>str.strip\<close>, \<open>str.replace\<close> (for a one-character pattern), \<open>str.endswith\<close>
  and \<open>str.rfind\<close>. A character above 127 stands for a caseless, non-blank code point.
\<close>

definition upper_char :: "char \<Rightarrow> char" where
  "upper_char c =
     (if 97 \<le> (of_char c :: nat) \<and> (of_char c :: nat) \<le> 122
      then char_of ((of_char c :: nat) - 32) else c)"

definition lower_char :: "char \<Rightarrow> char" where
  "lower_char c =
     (if 65 \<le> (of_char c :: nat) \<and> (of_char c :: nat) \<le> 90
      then char_of ((of_char c :: nat) + 32) else c)"

definition upper :: "string \<Rightarrow> string" where
  "upper s = map upper_char s"

definition lower :: "string \<Rightarrow> string" where
  "lower s = map lower_char s"

text \<open>
  \<open>str.isspace\<close> on ASCII: tab, line feed, vertical tab, form feed, carriage return
  (9 to 13), the four separators 28 to 31, and the space (32).
\<close>

definition isspace :: "char \<Rightarrow> bool" where
  "isspace c =
     ((9 \<le> (of_char c :: nat) \<and> (of_char c :: nat) \<le> 13) \<or>
      (28 \<le> (of_char c :: nat) \<and> (of_char c :: nat) \<le> 32))"

definition strip :: "string \<Rightarrow> string" where
  "strip s = rev (dropWhile isspace (rev (dropWhile isspace s)))"

definition replace_char :: "char \<Rightarrow> char \<Rightarrow> string \<Rightarrow> string" where
  "replace_char old new s = map (\<lambda>c. if c = old then new else c) s"

definition endswith :: "string \<Rightarrow> string \<Rightarrow> bool" where
  "endswith s suf =
     (length suf \<le> length s \<and> drop (length s - length suf) s = suf)"

text \<open>\<open>s.rfind(c)\<close>: the index of the last \<open>c\<close> in \<open>s\<close>, or \<open>-1\<close>.\<close>

definition rfind :: "char \<Rightarrow> string \<Rightarrow> int" where
  "rfind c s =
     (if c \<in> set s
      then int (length s) - 1 - int (length (takeWhile (\<lambda>x. x \<noteq> c) (rev s)))
      else -1)"

section \<open>Frequencies and the filename codec (base.py)\<close>

datatype DataFrequency =
  MINUTE_1 | MINUTE_5 | MINUTE_15 | MINUTE_30 | HOUR_1 | HOUR_4 | DAILY | WEEKLY | MONTHLY

text \<open>The member's \<open>.value\<close>, the code used in filenames.\<close>

fun frequency_value :: "DataFrequency \<Rightarrow> string" where
  "frequency_value MINUTE_1 = ''1m''"
| "frequency_value MINUTE_5 = ''5m''"
| "frequency_value MINUTE_15 = ''15m''"
| "frequency_value MINUTE_30 = ''30m''"
| "frequency_value HOUR_1 = ''1h''"
| "frequency_value HOUR_4 = ''4h''"
| "frequency_value DAILY = ''1d''"
| "frequency_value WEEKLY = ''1wk''"
| "frequency_value MONTHLY = ''1mo''"

text \<open>\<open>for freq in DataFrequency\<close> iterates in definition order.\<close>

definition all_frequencies :: "DataFrequency list" where
  "all_frequencies =
     [MINUTE_1, MINUTE_5, MINUTE_15, MINUTE_30, HOUR_1, HOUR_4, DAILY, WEEKLY, MONTHLY]"



definition safe_symbol :: "string \<Rightarrow> string" where
  "safe_symbol symbol =
     replace_char CHR '':'' CHR ''_''
       (replace_char (CHR 0x5C) CHR ''_'' (replace_char CHR ''/'' CHR ''_'' symbol))"

definition generate_filename :: "string \<Rightarrow> DataFrequency \<Rightarrow> string \<Rightarrow> string" where
  "generate_filename symbol frequency extension =
     lower (safe_symbol symbol) @ ''_'' @ frequency_value frequency @ extension"

text \<open>
  \<open>Path(filename).name\<close> on a POSIX path: the last component, where empty components
  and \<open>.\<close> are dropped; \<open>Path(name).suffix\<close> and \<open>.stem\<close> split the name at its last
  dot, unless that dot is the first or the last character.
\<close>

fun split_on :: "char \<Rightarrow> string \<Rightarrow> string list" where
  "split_on c [] = [[]]"
| "split_on c (x # xs) =
     (if x = c then [] # split_on c xs
      else (case split_on c xs of
              [] \<Rightarrow> [[x]]
            | p # ps \<Rightarrow> (x # p) # ps))"

definition path_name :: "string \<Rightarrow> string" where
  "path_name p =
     (case rev (filter (\<lambda>part. part \<noteq> [] \<and> part \<noteq> ''.'') (split_on CHR ''/'' p)) of
        [] \<Rightarrow> []
      | part # _ \<Rightarrow> part)"

definition name_suffix :: "string \<Rightarrow> string" where
  "name_suffix name =
     (let i = rfind CHR ''.'' name
      in if 0 < i \<and> i < int (length name) - 1 then drop (nat i) name else [])"

definition name_stem :: "string \<Rightarrow> string" where
  "name_stem name =
     (let i = rfind CHR ''.'' name
      in if 0 < i \<and> i < int (length name) - 1 then take (nat i) name else name)"


definition path_stem :: "string \<Rightarrow> string" where
  "path_stem p = name_stem (path_name p)"

text \<open>The loop of \<open>parse_filename\<close> over the frequencies still to try.\<close>

fun parse_frequencies :: "string \<Rightarrow> DataFrequency list \<Rightarrow> string \<times> DataFrequency option" where
  "parse_frequencies name_without_ext [] = (upper name_without_ext, None)"
| "parse_frequencies name_without_ext (freq # freqs) =
     (if endswith name_without_ext (''_'' @ frequency_value freq)
      then (upper (take (length name_without_ext - length (''_'' @ frequency_value freq))
                     name_without_ext),
            Some freq)
      else parse_frequencies name_without_ext freqs)"

definition parse_filename :: "string \<Rightarrow> string \<times> DataFrequency option" where
  "parse_filename filename = parse_frequencies (path_stem filename) all_frequencies"

section \<open>Requests (base.py)\<close>

datatype error =
  ValueError string
| ValidationError string
| FileNotFoundError string
| TypeError string

text \<open>
  A \<open>datetime\<close>: its wall-clock reading in microseconds since the epoch and its
  \<open>tzinfo\<close>, a fixed UTC offset in microseconds, or \<open>None\<close> for a naive value.
\<close>

record datetime =
  wall :: int
  tzinfo :: "int option"

record MarketDataRequest =
  symbol :: string
  start_date :: "datetime option"
  end_date :: "datetime option"
  frequency :: DataFrequency
  provider_specific_params :: "(string \<times> string) list option"

text \<open>The cleaning step of the validator, \<open>v.strip().upper()\<close>.\<close>

definition normalize_symbol :: "string \<Rightarrow> string" where
  "normalize_symbol v = upper (strip v)"

definition validate_symbol :: "string \<Rightarrow> error + string" where
  "validate_symbol v =
     (if v = [] then Inl (ValueError ''Symbol cannot be empty'')
      else (let cleaned = normalize_symbol v
            in if cleaned = [] then Inl (ValueError ''Symbol cannot be empty after cleaning'')
               else Inr cleaned))"

text \<open>
  Constructing a \<open>MarketDataRequest\<close>: the field validator runs on the symbol, and its
  \<open>ValueError\<close> reaches the caller as the model's validation error.
\<close>

definition new_MarketDataRequest ::
  "string \<Rightarrow> datetime option \<Rightarrow> datetime option \<Rightarrow> DataFrequency \<Rightarrow>
   (string \<times> string) list option \<Rightarrow> error + MarketDataRequest" where
  "new_MarketDataRequest symbol_arg start finish freq params =
     (case validate_symbol symbol_arg of
        Inl (ValueError msg) \<Rightarrow> Inl (ValidationError msg)
      | Inl e \<Rightarrow> Inl e
      | Inr cleaned \<Rightarrow>
          Inr \<lparr>symbol = cleaned, start_date = start, end_date = finish,
               frequency = freq, provider_specific_params = params\<rparr>)"

section \<open>Series records (base.py)\<close>

text \<open>
  A \<open>DataFrame\<close> is kept column by column, as pandas keeps it: the index labels and,
  for every column label, the cells of that column. A \<open>DatetimeIndex\<close> carries its
  timezone (a fixed UTC offset, or \<open>None\<close>) and the wall-clock readings of its
  timestamps in that timezone; any other index is a list of labels. Numeric cells are
  \<open>Num\<close>; no operation computes with them.
\<close>

datatype cell = Time int | Num int | Str string

datatype index_t = DatetimeIndex "int option" "int list" | Index "cell list"

record DataFrame =
  index :: index_t
  columns :: "(string \<times> cell list) list"

datatype meta_value = MNone | MBool bool | MInt int | MStr string | MIso datetime

type_synonym metadata_t = "(string \<times> meta_value) list"

record MarketData =
  md_symbol :: string
  data :: DataFrame
  metadata :: "metadata_t option"






















section \<open>The file provider (file_provider.py)\<close>

text \<open>
  What the provider sees of the file system: whether \<open>data_directory\<close> exists,
  whether \<open>data_directory / rel\<close> exists for a relative path \<open>rel\<close>, and the entries
  \<open>iterdir()\<close> yields, in its order, each with its \<open>is_file()\<close>. A file path is kept
  as the part below \<open>data_directory\<close>.
\<close>

record filesystem =
  dir_exists :: bool
  path_exists :: "string \<Rightarrow> bool"
  iterdir :: "(string \<times> bool) list"

record FileDataProvider =
  data_directory :: string
  supported_formats :: "string list"

definition new_FileDataProvider :: "string \<Rightarrow> FileDataProvider" where
  "new_FileDataProvider dir = \<lparr>data_directory = dir, supported_formats = [''.parquet'', ''.csv'']\<rparr>"

definition provider_name :: string where
  "provider_name = ''File Data Provider''"

text \<open>\<open>file_path.is_file() and file_path.suffix.lower() in self.supported_formats\<close>\<close>

definition is_data_file :: "FileDataProvider \<Rightarrow> string \<times> bool \<Rightarrow> bool" where
  "is_data_file p entry =
     (snd entry \<and> lower (name_suffix (fst entry)) \<in> set (supported_formats p))"

text \<open>The three loops of \<open>_find_file_for_symbol\<close>, each returning at its first hit.\<close>

fun find_exact :: "filesystem \<Rightarrow> string \<Rightarrow> DataFrequency \<Rightarrow> string list \<Rightarrow> string option" where
  "find_exact fs symbol_arg freq [] = None"
| "find_exact fs symbol_arg freq (extension # extensions) =
     (let filename = generate_filename symbol_arg freq extension
      in if path_exists fs filename then Some filename
         else find_exact fs symbol_arg freq extensions)"

fun find_pattern :: "filesystem \<Rightarrow> string \<Rightarrow> string list \<Rightarrow> string option" where
  "find_pattern fs file_pattern [] = None"
| "find_pattern fs file_pattern (extension # extensions) =
     (if path_exists fs (file_pattern @ extension) then Some (file_pattern @ extension)
      else find_pattern fs file_pattern extensions)"

fun find_legacy :: "filesystem \<Rightarrow> string list \<Rightarrow> string list \<Rightarrow> string option" where
  "find_legacy fs [] extensions = None"
| "find_legacy fs (file_pattern # file_patterns) extensions =
     (case find_pattern fs file_pattern extensions of
        Some file_path \<Rightarrow> Some file_path
      | None \<Rightarrow> find_legacy fs file_patterns extensions)"

fun find_scan :: "FileDataProvider \<Rightarrow> string \<Rightarrow> (string \<times> bool) list \<Rightarrow> string option" where
  "find_scan p symbol_arg [] = None"
| "find_scan p symbol_arg (entry # entries) =
     (if is_data_file p entry \<and> fst (parse_filename (fst entry)) = upper symbol_arg
      then Some (fst entry)
      else find_scan p symbol_arg entries)"

definition find_file_for_symbol ::
  "filesystem \<Rightarrow> FileDataProvider \<Rightarrow> string \<Rightarrow> DataFrequency option \<Rightarrow> string option" where
  "find_file_for_symbol fs p symbol_arg freq =
     (if \<not> dir_exists fs then None
      else (case (case freq of
                    None \<Rightarrow> None
                  | Some f \<Rightarrow> find_exact fs symbol_arg f (supported_formats p)) of
              Some file_path \<Rightarrow> Some file_path
            | None \<Rightarrow>
                (case find_legacy fs [lower symbol_arg, upper symbol_arg, symbol_arg]
                        (supported_formats p) of
                   Some file_path \<Rightarrow> Some file_path
                 | None \<Rightarrow> find_scan p symbol_arg (iterdir fs))))"

text \<open>
  The search as the specification words it: the first existing candidate of the
  canonical names, then of the legacy names, then the first scanned data file that
  decodes to the symbol.
\<close>

definition resolve_file ::
  "filesystem \<Rightarrow> FileDataProvider \<Rightarrow> string \<Rightarrow> DataFrequency option \<Rightarrow> string option" where
  "resolve_file fs p symbol_arg freq =
     (if \<not> dir_exists fs then None
      else (case List.find (path_exists fs)
                   ((case freq of
                       None \<Rightarrow> []
                     | Some f \<Rightarrow> map (generate_filename symbol_arg f) (supported_formats p)) @
                    concat (map (\<lambda>variant. map (\<lambda>extension. variant @ extension)
                                              (supported_formats p))
                              [lower symbol_arg, upper symbol_arg, symbol_arg])) of
              Some file_path \<Rightarrow> Some file_path
            | None \<Rightarrow>
                map_option fst
                  (List.find (\<lambda>entry. is_data_file p entry \<and>
                                       fst (parse_filename (fst entry)) = upper symbol_arg)
                     (iterdir fs))))"





text \<open>\<open>get_symbol_timeframe_combinations\<close>: the scan into a dictionary, then the sort
  of every list by code.\<close>

fun scan_combinations ::
  "FileDataProvider \<Rightarrow> (string \<times> bool) list \<Rightarrow> (string \<rightharpoonup> DataFrequency list) \<Rightarrow>
   (string \<rightharpoonup> DataFrequency list)" where
  "scan_combinations p [] combinations = combinations"
| "scan_combinations p (entry # entries) combinations =
     (if is_data_file p entry
      then (let (symbol_arg, freq) = parse_filename (fst entry);
                combinations1 =
                  (if combinations symbol_arg = None then combinations(symbol_arg \<mapsto> [])
                   else combinations);
                timeframes = (case combinations1 symbol_arg of None \<Rightarrow> [] | Some l \<Rightarrow> l);
                combinations2 =
                  (case freq of
                     None \<Rightarrow> combinations1
                   | Some f \<Rightarrow>
                       if f \<notin> set timeframes then combinations1(symbol_arg \<mapsto> timeframes @ [f])
                       else combinations1)
            in scan_combinations p entries combinations2)
      else scan_combinations p entries combinations)"

definition get_symbol_timeframe_combinations ::
  "filesystem \<Rightarrow> FileDataProvider \<Rightarrow> (string \<rightharpoonup> DataFrequency list)" where
  "get_symbol_timeframe_combinations fs p =
     (if \<not> dir_exists fs then Map.empty
      else (\<lambda>symbol_arg. map_option (sort_key frequency_value)
                            (scan_combinations p (iterdir fs) Map.empty symbol_arg)))"

subsection \<open>Date-range filtering\<close>









subsection \<open>Loading and \<open>get_data\<close>\<close>











section \<open>The loader (stock_loader.py)\<close>

text \<open>
  A provider is its \<open>get_data\<close>. \<open>get_multiple_symbols\<close> returns the dictionary; the
  model also keeps what the loop prints and, in call order, the symbols it asked
  \<open>get_data\<close> for.
\<close>

record StockDataLoader =
  providers :: "string \<rightharpoonup> (MarketDataRequest \<Rightarrow> error + MarketData)"
  default_provider :: string

fun str_of_error :: "error \<Rightarrow> string" where
  "str_of_error (ValueError m) = m"
| "str_of_error (ValidationError m) = m"
| "str_of_error (FileNotFoundError m) = m"
| "str_of_error (TypeError m) = m"

definition StockDataLoader_get_data ::
  "StockDataLoader \<Rightarrow> string \<Rightarrow> datetime option \<Rightarrow> datetime option \<Rightarrow> DataFrequency \<Rightarrow>
   string option \<Rightarrow> (string \<times> string) list \<Rightarrow> error + MarketData" where
  "StockDataLoader_get_data loader symbol_arg start finish freq provider kwargs =
     (let provider_name =
            (case provider of
               None \<Rightarrow> default_provider loader
             | Some name \<Rightarrow> if name = [] then default_provider loader else name)
      in case providers loader provider_name of
           None \<Rightarrow>
             Inl (ValueError (''Provider '' @ [CHR 0x27] @ provider_name @ [CHR 0x27] @
                              '' not found''))
         | Some get_data \<Rightarrow>
             (case new_MarketDataRequest symbol_arg start finish freq (Some kwargs) of
                Inl e \<Rightarrow> Inl e
              | Inr request \<Rightarrow> get_data request))"

record batch =
  results :: "string \<rightharpoonup> MarketData"
  printed :: "string list"
  calls :: "string list"

fun get_multiple_symbols_loop ::
  "(string \<Rightarrow> error + MarketData) \<Rightarrow> string list \<Rightarrow> batch \<Rightarrow> batch" where
  "get_multiple_symbols_loop fetch [] b = b"
| "get_multiple_symbols_loop fetch (symbol_arg # symbols) b =
     (case fetch symbol_arg of
        Inr market_data \<Rightarrow>
          get_multiple_symbols_loop fetch symbols
            (b\<lparr>results := (results b)(symbol_arg \<mapsto> market_data),
               calls := calls b @ [symbol_arg]\<rparr>)
      | Inl e \<Rightarrow>
          get_multiple_symbols_loop fetch symbols
            (b\<lparr>printed := printed b @ [''Error loading '' @ symbol_arg @ '': '' @ str_of_error e],
               calls := calls b @ [symbol_arg]\<rparr>))"

definition get_multiple_symbols ::
  "StockDataLoader \<Rightarrow> string list \<Rightarrow> datetime option \<Rightarrow> datetime option \<Rightarrow> DataFrequency \<Rightarrow>
   string option \<Rightarrow> (string \<times> string) list \<Rightarrow> batch" where
  "get_multiple_symbols loader symbols start finish freq provider kwargs =
     get_multiple_symbols_loop
       (\<lambda>symbol_arg. StockDataLoader_get_data loader symbol_arg start finish freq provider kwargs)
       symbols \<lparr>results = Map.empty, printed = [], calls = []\<rparr>"

section \<open>Example inputs\<close>

text \<open>A directory holding AAPL in both formats, canonical and legacy, the delimited-text
  files first in scan order.\<close>

definition fs_both :: filesystem where
  "fs_both =
     \<lparr>dir_exists = True,
      path_exists = (\<lambda>rel. rel \<in> set [''aapl_1d.csv'', ''aapl_1d.parquet'', ''aapl.csv'',
                                         ''aapl.parquet'']),
      iterdir = [(''aapl_1d.csv'', True), (''aapl.csv'', True), (''aapl_1d.parquet'', True),
                 (''aapl.parquet'', True)]\<rparr>"

text \<open>A directory with AAPL hourly and, in both formats, daily, a legacy file, a text
  file and a subdirectory named like a data file.\<close>

definition fs_catalog :: filesystem where
  "fs_catalog =
     \<lparr>dir_exists = True,
      path_exists = (\<lambda>rel. rel \<in> set [''aapl_1h.parquet'', ''aapl_1d.csv'', ''aapl_1d.parquet'',
                                         ''legacy.csv'', ''notes.txt'', ''msft_1d.parquet'']),
      iterdir = [(''aapl_1h.parquet'', True), (''aapl_1d.csv'', True), (''aapl_1d.parquet'', True),
                 (''legacy.csv'', True), (''notes.txt'', True), (''msft_1d.parquet'', False)]\<rparr>"






text \<open>A loader whose provider raises for the symbol INVALID and returns an empty series
  for every other one.\<close>

definition empty_frame :: DataFrame where
  "empty_frame = \<lparr>index = DatetimeIndex None [], columns = []\<rparr>"

definition mock_loader :: StockDataLoader where
  "mock_loader =
     \<lparr>providers =
        [''yahoo'' \<mapsto>
           (\<lambda>request. if symbol request = ''INVALID'' then Inl (ValueError ''Invalid symbol'')
                       else Inr \<lparr>md_symbol = symbol request, data = empty_frame,
                                 metadata = None\<rparr>)],
      default_provider = ''yahoo''\<rparr>"




section \<open>Auxiliary notions\<close>

text \<open>What one data file adds to a symbol's list during the catalog scan, and the list
  a dictionary holds for a symbol (empty when the key is absent).\<close>

definition add_frequency :: "DataFrequency option \<Rightarrow> DataFrequency list \<Rightarrow> DataFrequency list" where
  "add_frequency freq l = (case freq of None \<Rightarrow> l | Some f \<Rightarrow> if f \<in> set l then l else l @ [f])"

definition listed :: "(string \<rightharpoonup> DataFrequency list) \<Rightarrow> string \<Rightarrow> DataFrequency list" where
  "listed m s = (case m s of None \<Rightarrow> [] | Some l \<Rightarrow> l)"

section \<open>Properties of the string and path functions\<close>



































section \<open>Request symbol normalization\<close>








section \<open>The filename codec round trip\<close>










section \<open>File resolution\<close>

lemma find_exact_find:
  "find_exact fs s f exts = List.find (path_exists fs) (map (generate_filename s f) exts)"
  by (induction exts) (simp_all add: Let_def)

lemma find_pattern_find:
  "find_pattern fs pat exts = List.find (path_exists fs) (map (\<lambda>e. pat @ e) exts)"
  by (induction exts) simp_all

lemma find_append_case:
  "List.find P (xs @ ys) = (case List.find P xs of Some x \<Rightarrow> Some x | None \<Rightarrow> List.find P ys)"
  by (induction xs) simp_all

lemma find_legacy_find:
  "find_legacy fs pats exts =
     List.find (path_exists fs) (concat (map (\<lambda>v. map (\<lambda>e. v @ e) exts) pats))"
  by (induction pats) (auto simp: find_pattern_find find_append_case split: option.splits)

lemma find_scan_find:
  "find_scan p s entries =
     map_option fst
       (List.find (\<lambda>entry. is_data_file p entry \<and> fst (parse_filename (fst entry)) = upper s)
          entries)"
  by (induction entries) simp_all

lemma find_file_refines: "find_file_for_symbol fs p s freq = resolve_file fs p s freq"
  by (cases freq)
     (simp_all add: find_file_for_symbol_def resolve_file_def find_exact_find find_legacy_find
        find_scan_find find_append_case split: option.splits)

text \<open>
  C2. \<open>_find_file_for_symbol\<close> is the first-match search the specification states:
  the first existing canonical name in the order of \<open>supported_formats\<close>, else the
  first existing legacy name over the variants lower, upper, as given (each with the
  extensions in that order), else the first scanned data file that decodes to the
  symbol; nothing but existence and order decides. So when the \<open>.parquet\<close> and the
  \<open>.csv\<close> file of a symbol and frequency both exist, a request for that symbol and
  frequency resolves to the \<open>.parquet\<close> file, and likewise for the two legacy names
  of a symbol.
\<close>

theorem format_priority:
  "find_file_for_symbol fs p s freq = resolve_file fs p s freq
   \<and> (dir_exists fs \<and> path_exists fs (generate_filename s f ''.parquet'')
         \<and> path_exists fs (generate_filename s f ''.csv'')
       \<longrightarrow> find_file_for_symbol fs (new_FileDataProvider dir) s (Some f) =
             Some (generate_filename s f ''.parquet''))
   \<and> (dir_exists fs \<and> path_exists fs (lower s @ ''.parquet'')
         \<and> path_exists fs (lower s @ ''.csv'')
       \<longrightarrow> find_file_for_symbol fs (new_FileDataProvider dir) s None =
             Some (lower s @ ''.parquet''))"
proof (intro conjI impI)
  show "find_file_for_symbol fs p s freq = resolve_file fs p s freq"
    by (rule find_file_refines)
next
  assume "dir_exists fs \<and> path_exists fs (generate_filename s f ''.parquet'')
         \<and> path_exists fs (generate_filename s f ''.csv'')"
  then show "find_file_for_symbol fs (new_FileDataProvider dir) s (Some f) =
             Some (generate_filename s f ''.parquet'')"
    by (simp add: find_file_for_symbol_def new_FileDataProvider_def Let_def)
next
  assume "dir_exists fs \<and> path_exists fs (lower s @ ''.parquet'')
         \<and> path_exists fs (lower s @ ''.csv'')"
  then show "find_file_for_symbol fs (new_FileDataProvider dir) s None =
             Some (lower s @ ''.parquet'')"
    by (simp add: find_file_for_symbol_def new_FileDataProvider_def)
qed

theorem format_priority_witness:
  "dir_exists fs_both \<and> path_exists fs_both (generate_filename ''AAPL'' DAILY ''.parquet'')
   \<and> path_exists fs_both (generate_filename ''AAPL'' DAILY ''.csv'')
   \<and> find_file_for_symbol fs_both (new_FileDataProvider ''data'') ''AAPL'' (Some DAILY) =
       Some ''aapl_1d.parquet''
   \<and> path_exists fs_both (lower ''AAPL'' @ ''.parquet'')
   \<and> path_exists fs_both (lower ''AAPL'' @ ''.csv'')
   \<and> find_file_for_symbol fs_both (new_FileDataProvider ''data'') ''AAPL'' None =
       Some ''aapl.parquet''"
proof -
  have g: "generate_filename ''AAPL'' DAILY ''.parquet'' = ''aapl_1d.parquet''"
    "generate_filename ''AAPL'' DAILY ''.csv'' = ''aapl_1d.csv''"
    "lower ''AAPL'' = ''aapl''"
    by code_simp+
  have h: "dir_exists fs_both" "path_exists fs_both ''aapl_1d.parquet''"
    "path_exists fs_both ''aapl_1d.csv''" "path_exists fs_both (''aapl'' @ ''.parquet'')"
    "path_exists fs_both (''aapl'' @ ''.csv'')"
    by (simp_all add: fs_both_def)
  note fp = format_priority [of fs_both "new_FileDataProvider ''data''" "''AAPL''" "Some DAILY"
      DAILY "''data''", unfolded g]
  from fp h have 1: "find_file_for_symbol fs_both (new_FileDataProvider ''data'') ''AAPL''
      (Some DAILY) = Some ''aapl_1d.parquet''"
    by blast
  from fp h have 2: "find_file_for_symbol fs_both (new_FileDataProvider ''data'') ''AAPL''
      None = Some (''aapl'' @ ''.parquet'')"
    by blast
  show ?thesis using h 1 2 unfolding g by simp
qed

section \<open>The catalog index\<close>

lemma scan_combinations_step:
  "is_data_file p entry \<Longrightarrow>
   scan_combinations p (entry # entries) m =
     scan_combinations p entries
       (m(fst (parse_filename (fst entry)) \<mapsto>
            add_frequency (snd (parse_filename (fst entry)))
              (listed m (fst (parse_filename (fst entry))))))"
  by (cases "parse_filename (fst entry)")
     (auto simp: add_frequency_def listed_def Let_def fun_upd_idem split: option.splits
           intro!: arg_cong [where f = "scan_combinations p entries"])

lemma scan_combinations_skip:
  "\<not> is_data_file p entry \<Longrightarrow>
   scan_combinations p (entry # entries) m = scan_combinations p entries m"
  by simp

lemma set_add_frequency: "set (add_frequency freq l) = set l \<union> set_option freq"
  by (auto simp: add_frequency_def split: option.splits)

lemma distinct_add_frequency: "distinct l \<Longrightarrow> distinct (add_frequency freq l)"
  by (auto simp: add_frequency_def split: option.splits)

lemma scan_combinations_dom:
  "dom (scan_combinations p entries m) =
     dom m \<union>
     (\<lambda>entry. fst (parse_filename (fst entry))) ` {entry \<in> set entries. is_data_file p entry}"
proof (induction entries arbitrary: m)
  case Nil
  then show ?case by simp
next
  case (Cons entry entries)
  show ?case
  proof (cases "is_data_file p entry")
    case True
    show ?thesis
      unfolding scan_combinations_step [OF True] Cons.IH using True by auto
  next
    case False
    show ?thesis
      unfolding scan_combinations_skip [OF False] Cons.IH using False by auto
  qed
qed

lemma scan_combinations_set:
  "set (listed (scan_combinations p entries m) s) =
     set (listed m s) \<union>
     {f. \<exists>entry\<in>set entries. is_data_file p entry \<and> parse_filename (fst entry) = (s, Some f)}"
proof (induction entries arbitrary: m)
  case Nil
  then show ?case by simp
next
  case (Cons entry entries)
  show ?case
  proof (cases "is_data_file p entry")
    case True
    obtain s1 fo where pf: "parse_filename (fst entry) = (s1, fo)"
      by (cases "parse_filename (fst entry)")
    show ?thesis
      unfolding scan_combinations_step [OF True] Cons.IH using True
      by (cases fo) (auto simp: pf listed_def set_add_frequency)
  next
    case False
    show ?thesis
      unfolding scan_combinations_skip [OF False] Cons.IH using False by auto
  qed
qed

lemma scan_combinations_distinct:
  "(\<forall>s. distinct (listed m s)) \<Longrightarrow> distinct (listed (scan_combinations p entries m) s)"
proof (induction entries arbitrary: m)
  case Nil
  then show ?case by simp
next
  case (Cons entry entries)
  show ?case
  proof (cases "is_data_file p entry")
    case True
    show ?thesis
      unfolding scan_combinations_step [OF True]
      by (rule Cons.IH) (use Cons.prems in \<open>auto simp: listed_def distinct_add_frequency\<close>)
  next
    case False
    show ?thesis
      unfolding scan_combinations_skip [OF False] by (rule Cons.IH) (rule Cons.prems)
  qed
qed


lemma combinations_lookup:
  "dir_exists fs \<Longrightarrow>
   get_symbol_timeframe_combinations fs p s =
     map_option (sort_key frequency_value) (scan_combinations p (iterdir fs) Map.empty s)"
  by (simp add: get_symbol_timeframe_combinations_def)

lemma combinations_dom:
  "dir_exists fs \<Longrightarrow>
   dom (get_symbol_timeframe_combinations fs p) =
     (\<lambda>entry. fst (parse_filename (fst entry))) ` {entry \<in> set (iterdir fs). is_data_file p entry}"
proof -
  assume d: "dir_exists fs"
  have "dom (get_symbol_timeframe_combinations fs p) = dom (scan_combinations p (iterdir fs) Map.empty)"
    by (auto simp: combinations_lookup [OF d] dom_def)
  then show ?thesis by (simp add: scan_combinations_dom)
qed

lemma combinations_list:
  assumes "dir_exists fs" and "get_symbol_timeframe_combinations fs p s = Some l"
  shows "distinct l \<and> sorted (map frequency_value l) \<and>
         set l = {f. \<exists>entry\<in>set (iterdir fs). is_data_file p entry \<and>
                       parse_filename (fst entry) = (s, Some f)}"
proof -
  from assms obtain l0 where l0: "scan_combinations p (iterdir fs) Map.empty s = Some l0"
    and l: "l = sort_key frequency_value l0"
    by (auto simp: combinations_lookup)
  have "distinct (listed (scan_combinations p (iterdir fs) Map.empty) s)"
    by (rule scan_combinations_distinct) (simp add: listed_def)
  then have "distinct l0" by (simp add: listed_def l0)
  moreover have "set (listed (scan_combinations p (iterdir fs) Map.empty) s) =
      set (listed Map.empty s) \<union>
      {f. \<exists>entry\<in>set (iterdir fs). is_data_file p entry \<and>
            parse_filename (fst entry) = (s, Some f)}"
    by (rule scan_combinations_set)
  then have "set l0 = {f. \<exists>entry\<in>set (iterdir fs). is_data_file p entry \<and>
            parse_filename (fst entry) = (s, Some f)}"
    by (simp add: listed_def l0)
  ultimately show ?thesis by (simp add: l)
qed

text \<open>
  C9. On a missing directory the index is empty. Otherwise every symbol decoded from a
  file with a supported extension is a key of \<open>get_symbol_timeframe_combinations\<close>; a
  symbol all of whose files decode without a frequency maps to the empty list; and
  every symbol's list has no duplicates, is sorted by the frequency code as a string,
  and holds exactly the frequencies decoded from that symbol's files.
\<close>

theorem catalog_index_complete:
  "(\<not> dir_exists fs \<longrightarrow> get_symbol_timeframe_combinations fs p = Map.empty)
   \<and> (dir_exists fs \<longrightarrow>
        (\<forall>entry\<in>set (iterdir fs). is_data_file p entry \<longrightarrow>
           fst (parse_filename (fst entry)) \<in> dom (get_symbol_timeframe_combinations fs p))
      \<and> (\<forall>entry\<in>set (iterdir fs). is_data_file p entry \<longrightarrow>
           (\<forall>other\<in>set (iterdir fs).
               is_data_file p other \<and>
               fst (parse_filename (fst other)) = fst (parse_filename (fst entry)) \<longrightarrow>
               snd (parse_filename (fst other)) = None) \<longrightarrow>
           get_symbol_timeframe_combinations fs p (fst (parse_filename (fst entry))) = Some [])
      \<and> (\<forall>s l. get_symbol_timeframe_combinations fs p s = Some l \<longrightarrow>
           distinct l \<and> sorted (map frequency_value l) \<and>
           set l = {f. \<exists>entry\<in>set (iterdir fs). is_data_file p entry \<and>
                         parse_filename (fst entry) = (s, Some f)}))"
proof (intro conjI impI ballI allI)
  assume "\<not> dir_exists fs"
  then show "get_symbol_timeframe_combinations fs p = Map.empty"
    by (simp add: get_symbol_timeframe_combinations_def)
next
  fix entry
  assume "dir_exists fs" "entry \<in> set (iterdir fs)" "is_data_file p entry"
  then show "fst (parse_filename (fst entry)) \<in> dom (get_symbol_timeframe_combinations fs p)"
    by (simp add: combinations_dom)
next
  fix entry
  assume d: "dir_exists fs" and e: "entry \<in> set (iterdir fs)" "is_data_file p entry"
    and legacy: "\<forall>other\<in>set (iterdir fs).
               is_data_file p other \<and>
               fst (parse_filename (fst other)) = fst (parse_filename (fst entry)) \<longrightarrow>
               snd (parse_filename (fst other)) = None"
  let ?s = "fst (parse_filename (fst entry))"
  from d e have "?s \<in> dom (get_symbol_timeframe_combinations fs p)"
    by (simp add: combinations_dom)
  then obtain l where l: "get_symbol_timeframe_combinations fs p ?s = Some l" by auto
  from combinations_list [OF d l]
  have "set l = {f. \<exists>other\<in>set (iterdir fs). is_data_file p other \<and>
                       parse_filename (fst other) = (?s, Some f)}"
    by simp
  also have "\<dots> = {}" using legacy by fastforce
  finally show "get_symbol_timeframe_combinations fs p ?s = Some []" using l by simp
next
  fix s l
  assume d: "dir_exists fs" and l: "get_symbol_timeframe_combinations fs p s = Some l"
  from combinations_list [OF d l] show "distinct l" "sorted (map frequency_value l)"
    "set l = {f. \<exists>entry\<in>set (iterdir fs). is_data_file p entry \<and>
                         parse_filename (fst entry) = (s, Some f)}"
    by simp_all
qed


theorem catalog_index_complete_witness:
  "dir_exists fs_catalog
   \<and> (''legacy.csv'', True) \<in> set (iterdir fs_catalog)
   \<and> is_data_file (new_FileDataProvider ''data'') (''legacy.csv'', True)
   \<and> fst (parse_filename ''legacy.csv'') = ''LEGACY''
   \<and> ''LEGACY'' \<in> dom (get_symbol_timeframe_combinations fs_catalog (new_FileDataProvider ''data''))
   \<and> get_symbol_timeframe_combinations fs_catalog (new_FileDataProvider ''data'') ''AAPL'' =
         Some [DAILY, HOUR_1]
   \<and> distinct [DAILY, HOUR_1] \<and> sorted (map frequency_value [DAILY, HOUR_1])"
proof -
  let ?p = "new_FileDataProvider ''data''"
  have d: "dir_exists fs_catalog" by (simp add: fs_catalog_def)
  have e: "(''legacy.csv'', True) \<in> set (iterdir fs_catalog)" by (simp add: fs_catalog_def)
  have f: "is_data_file ?p (''legacy.csv'', True)" by code_simp
  have s: "fst (parse_filename (fst (''legacy.csv'', True))) = ''LEGACY''" by code_simp
  have a: "get_symbol_timeframe_combinations fs_catalog ?p ''AAPL'' = Some [DAILY, HOUR_1]"
    by code_simp
  note t = catalog_index_complete [of fs_catalog ?p]
  from t d e f have "fst (parse_filename (fst (''legacy.csv'', True))) \<in>
      dom (get_symbol_timeframe_combinations fs_catalog ?p)"
    by blast
  then have 1: "''LEGACY'' \<in> dom (get_symbol_timeframe_combinations fs_catalog ?p)"
    by (simp only: s)
  from t d a have 2: "distinct [DAILY, HOUR_1] \<and> sorted (map frequency_value [DAILY, HOUR_1])"
    by blast
  from s have s': "fst (parse_filename ''legacy.csv'') = ''LEGACY''" by simp
  show ?thesis using d e f s' 1 a 2 by blast
qed

section \<open>Available timeframes\<close>














section \<open>Missing directory and not-found\<close>







section \<open>Batch fetch\<close>

lemma loop_calls: "calls (get_multiple_symbols_loop fetch symbols b) = calls b @ symbols"
  by (induction symbols arbitrary: b) (simp_all split: sum.splits)

lemma loop_printed:
  "printed (get_multiple_symbols_loop fetch symbols b) =
     printed b @
     concat (map (\<lambda>s. case fetch s of
                         Inl e \<Rightarrow> [''Error loading '' @ s @ '': '' @ str_of_error e]
                       | Inr d \<Rightarrow> []) symbols)"
  by (induction symbols arbitrary: b) (simp_all split: sum.splits)

lemma loop_results:
  "results (get_multiple_symbols_loop fetch symbols b) s =
     (if s \<in> set symbols
      then (case fetch s of Inr d \<Rightarrow> Some d | Inl e \<Rightarrow> results b s)
      else results b s)"
  by (induction symbols arbitrary: b) (auto split: sum.splits)

lemma loop_dom:
  "dom (results (get_multiple_symbols_loop fetch symbols
                   \<lparr>results = Map.empty, printed = [], calls = []\<rparr>)) =
     set (filter (\<lambda>s. \<not> isl (fetch s)) symbols)"
proof -
  have "results (get_multiple_symbols_loop fetch symbols
                   \<lparr>results = Map.empty, printed = [], calls = []\<rparr>) s \<noteq> None
        \<longleftrightarrow> s \<in> set symbols \<and> \<not> isl (fetch s)" for s
    by (cases "fetch s") (simp_all add: loop_results)
  then show ?thesis by (auto simp: dom_def)
qed

text \<open>
  C5. \<open>get_multiple_symbols\<close> calls \<open>get_data\<close> once per symbol, in input order. It
  always returns a dictionary: a symbol whose call raised is reported and left out, a
  symbol whose call succeeded maps to the record fetched, nothing else is a key; if
  every symbol fails the dictionary is empty, as it is for an empty input. With three
  different symbols of which exactly one fails, the dictionary has exactly two entries.
\<close>

theorem batch_fetch_tolerates_failures:
  fixes loader symbols start finish freq provider kwargs
  defines "fetch \<equiv> \<lambda>s. StockDataLoader_get_data loader s start finish freq provider kwargs"
    and "b \<equiv> get_multiple_symbols loader symbols start finish freq provider kwargs"
  shows "calls b = symbols
    \<and> (\<forall>s. results b s =
          (if s \<in> set symbols then (case fetch s of Inr d \<Rightarrow> Some d | Inl e \<Rightarrow> None)
           else None))
    \<and> printed b =
        concat (map (\<lambda>s. case fetch s of
                           Inl e \<Rightarrow> [''Error loading '' @ s @ '': '' @ str_of_error e]
                         | Inr d \<Rightarrow> []) symbols)
    \<and> ((\<forall>s\<in>set symbols. isl (fetch s)) \<longrightarrow> results b = Map.empty)
    \<and> results (get_multiple_symbols loader [] start finish freq provider kwargs) = Map.empty
    \<and> (distinct symbols \<and> length symbols = 3 \<and> length (filter (\<lambda>s. isl (fetch s)) symbols) = 1
        \<longrightarrow> card (dom (results b)) = 2)"
proof (intro conjI allI impI)
  show "calls b = symbols"
    by (simp add: b_def get_multiple_symbols_def loop_calls)
  show r: "results b s =
          (if s \<in> set symbols then (case fetch s of Inr d \<Rightarrow> Some d | Inl e \<Rightarrow> None)
           else None)" for s
    by (cases "fetch s") (simp_all add: b_def fetch_def get_multiple_symbols_def loop_results)
  show "printed b =
        concat (map (\<lambda>s. case fetch s of
                           Inl e \<Rightarrow> [''Error loading '' @ s @ '': '' @ str_of_error e]
                         | Inr d \<Rightarrow> []) symbols)"
    by (simp add: b_def fetch_def get_multiple_symbols_def loop_printed)
  show "results (get_multiple_symbols loader [] start finish freq provider kwargs) = Map.empty"
    by (simp add: get_multiple_symbols_def)
  {
    assume "\<forall>s\<in>set symbols. isl (fetch s)"
    then show "results b = Map.empty"
      by (auto simp: r isl_def fun_eq_iff)
  }
  {
    assume h: "distinct symbols \<and> length symbols = 3 \<and>
               length (filter (\<lambda>s. isl (fetch s)) symbols) = 1"
    have "dom (results b) = set (filter (\<lambda>s. \<not> isl (fetch s)) symbols)"
      by (simp add: b_def fetch_def get_multiple_symbols_def loop_dom)
    moreover have "distinct (filter (\<lambda>s. \<not> isl (fetch s)) symbols)"
      using h by simp
    ultimately have "card (dom (results b)) = length (filter (\<lambda>s. \<not> isl (fetch s)) symbols)"
      by (simp only: distinct_card)
    moreover have "length (filter (\<lambda>s. isl (fetch s)) symbols) +
        length (filter (\<lambda>s. \<not> isl (fetch s)) symbols) = length symbols"
      by (rule sum_length_filter_compl)
    ultimately show "card (dom (results b)) = 2" using h by simp
  }
qed

theorem batch_fetch_tolerates_failures_witness:
  "distinct [''AAPL'', ''INVALID'', ''GOOGL'']
   \<and> StockDataLoader_get_data mock_loader ''INVALID'' None None DAILY None [] =
        Inl (ValueError ''Invalid symbol'')
   \<and> calls (get_multiple_symbols mock_loader [''AAPL'', ''INVALID'', ''GOOGL''] None None DAILY
              None []) = [''AAPL'', ''INVALID'', ''GOOGL'']
   \<and> printed (get_multiple_symbols mock_loader [''AAPL'', ''INVALID'', ''GOOGL''] None None DAILY
                None []) = [''Error loading INVALID: Invalid symbol'']
   \<and> results (get_multiple_symbols mock_loader [''AAPL'', ''INVALID'', ''GOOGL''] None None DAILY
                None []) ''INVALID'' = None
   \<and> results (get_multiple_symbols mock_loader [''AAPL'', ''INVALID'', ''GOOGL''] None None DAILY
                None []) ''GOOGL'' =
        Some \<lparr>md_symbol = ''GOOGL'', data = empty_frame, metadata = None\<rparr>
   \<and> card (dom (results (get_multiple_symbols mock_loader [''AAPL'', ''INVALID'', ''GOOGL''] None
                          None DAILY None []))) = 2"
proof -
  let ?syms = "[''AAPL'', ''INVALID'', ''GOOGL'']"
  let ?b = "get_multiple_symbols mock_loader ?syms None None DAILY None []"
  have f: "StockDataLoader_get_data mock_loader ''AAPL'' None None DAILY None [] =
             Inr \<lparr>md_symbol = ''AAPL'', data = empty_frame, metadata = None\<rparr>"
    "StockDataLoader_get_data mock_loader ''INVALID'' None None DAILY None [] =
             Inl (ValueError ''Invalid symbol'')"
    "StockDataLoader_get_data mock_loader ''GOOGL'' None None DAILY None [] =
             Inr \<lparr>md_symbol = ''GOOGL'', data = empty_frame, metadata = None\<rparr>"
    by code_simp+
  have d: "distinct ?syms" by simp
  have n: "length (filter (\<lambda>s. isl (StockDataLoader_get_data mock_loader s None None DAILY None []))
             ?syms) = 1"
    by (simp add: f)
  note t = batch_fetch_tolerates_failures [of mock_loader ?syms None None DAILY None "[]"]
  from t have 1: "calls ?b = ?syms" by blast
  from t have "printed ?b =
        concat (map (\<lambda>s. case StockDataLoader_get_data mock_loader s None None DAILY None [] of
                           Inl e \<Rightarrow> [''Error loading '' @ s @ '': '' @ str_of_error e]
                         | Inr d \<Rightarrow> []) ?syms)"
    by blast
  then have 2: "printed ?b = [''Error loading INVALID: Invalid symbol'']"
    by (simp add: f)
  from t have r: "results ?b s =
          (if s \<in> set ?syms
           then (case StockDataLoader_get_data mock_loader s None None DAILY None [] of
                   Inr d \<Rightarrow> Some d | Inl e \<Rightarrow> None)
           else None)" for s
    by blast
  have 3: "results ?b ''INVALID'' = None" unfolding r by (simp add: f)
  have 4: "results ?b ''GOOGL'' = Some \<lparr>md_symbol = ''GOOGL'', data = empty_frame, metadata = None\<rparr>"
    unfolding r by (simp add: f)
  from t d n have 5: "card (dom (results ?b)) = 2" by simp
  show ?thesis using d f(2) 1 2 3 4 5 by blast
qed

section \<open>Saving a record that lacks required columns\<close>








end
